theory Spec2Isabelle
  imports Main
begin

section \<open>The daemon supervisor of soundctld (daemon.py)\<close>

text \<open>
  The class \<open>Daemon\<close> of \<^verbatim>\<open>src/src/daemon.py\<close> is embedded as functions
  over an explicit process state. One run of a method is the run of one operating system
  process: what \<^verbatim>\<open>os.fork\<close>, \<^verbatim>\<open>os.getpid\<close> and \<^verbatim>\<open>os.kill\<close>
  answer to that process is given by an environment record, and every action the process
  performs is appended to a log. Exceptions are values of a sum type; a method that may
  loop forever returns an \<open>option\<close>, \<open>None\<close> meaning that it never returns.
\<close>

subsection \<open>Python strings: strip, int, str, find\<close>

definition nl :: string where
  "nl = [char_of (10::nat)]"

text \<open>
  The characters of a \<open>string\<close> are read as code points below 256. Among these,
  \<^verbatim>\<open>str.isspace\<close> holds for 9 to 13, 28 to 32, 133 and 160, and the only
  decimal digits are \<^verbatim>\<open>0\<close> to \<^verbatim>\<open>9\<close>.
\<close>

definition py_isspace :: "char \<Rightarrow> bool" where
  "py_isspace c = (let n = (of_char c :: nat) in
     (9 \<le> n \<and> n \<le> 13) \<or> (28 \<le> n \<and> n \<le> 32) \<or> n = 133 \<or> n = 160)"

definition strip :: "string \<Rightarrow> string" where
  "strip s = rev (dropWhile py_isspace (rev (dropWhile py_isspace s)))"

definition is_digit :: "char \<Rightarrow> bool" where
  "is_digit c = (let n = (of_char c :: nat) in 48 \<le> n \<and> n \<le> 57)"

definition digit_val :: "char \<Rightarrow> nat" where
  "digit_val c = of_char c - 48"

text \<open>
  The digits of a decimal literal accepted by \<^verbatim>\<open>int\<close>: a digit, then digits
  each optionally preceded by one underscore. \<open>digits_tail acc s\<close> reads what follows
  a digit.
\<close>

fun digits_tail :: "nat \<Rightarrow> string \<Rightarrow> nat option" where
  "digits_tail acc [] = Some acc"
| "digits_tail acc [c] =
     (if is_digit c then Some (acc * 10 + digit_val c) else None)"
| "digits_tail acc (c # d # ds) =
     (if is_digit c then digits_tail (acc * 10 + digit_val c) (d # ds)
      else if c = CHR ''_'' \<and> is_digit d then digits_tail (acc * 10 + digit_val d) ds
      else None)"

definition py_digits :: "string \<Rightarrow> nat option" where
  "py_digits s = (case s of
       [] \<Rightarrow> None
     | c # cs \<Rightarrow> if is_digit c then digits_tail (digit_val c) cs else None)"

text \<open>
  \<^verbatim>\<open>int(s)\<close> for a string: surrounding whitespace is dropped, one sign is allowed,
  and \<open>None\<close> stands for the \<^verbatim>\<open>ValueError\<close> of a text that is no literal.
  The interpreter's optional limit on the number of digits is not modelled.
\<close>

definition py_int :: "string \<Rightarrow> int option" where
  "py_int s = (case strip s of
       [] \<Rightarrow> None
     | c # cs \<Rightarrow>
         if c = CHR ''-'' then map_option (\<lambda>n. - int n) (py_digits cs)
         else if c = CHR ''+'' then map_option int (py_digits cs)
         else map_option int (py_digits (c # cs)))"

definition digit_char :: "nat \<Rightarrow> char" where
  "digit_char n = char_of (48 + n)"

fun str_nat :: "nat \<Rightarrow> string" where
  "str_nat n = (if n < 10 then [digit_char n] else str_nat (n div 10) @ [digit_char (n mod 10)])"

declare str_nat.simps [simp del]

definition str_int :: "int \<Rightarrow> string" where
  "str_int i = (if i < 0 then CHR ''-'' # str_nat (nat (- i)) else str_nat (nat i))"

text \<open>\<^verbatim>\<open>s.find(sub)\<close>: the lowest index where \<open>sub\<close> occurs in \<open>s\<close>, or \<open>-1\<close>.\<close>

fun find_from :: "nat \<Rightarrow> string \<Rightarrow> string \<Rightarrow> int" where
  "find_from i [] sub = (if sub = [] then int i else - 1)"
| "find_from i (c # cs) sub =
     (if take (length sub) (c # cs) = sub then int i else find_from (Suc i) cs sub)"

definition find :: "string \<Rightarrow> string \<Rightarrow> int" where
  "find s sub = find_from 0 s sub"

subsection \<open>Errors of the operating system and exceptions\<close>

text \<open>
  The error numbers that \<^verbatim>\<open>fork\<close>, \<^verbatim>\<open>kill\<close> and \<^verbatim>\<open>unlink\<close> report on
  Linux, with their numbers and the messages of the C library. An \<^verbatim>\<open>OSError\<close>
  raised by the \<^verbatim>\<open>os\<close> module has \<^verbatim>\<open>args = (errno, strerror)\<close>.
\<close>

datatype errno = EPERM | ENOENT | ESRCH | EAGAIN | ENOMEM | EINVAL | ENOSYS

fun errno_num :: "errno \<Rightarrow> int" where
  "errno_num EPERM = 1"
| "errno_num ENOENT = 2"
| "errno_num ESRCH = 3"
| "errno_num EAGAIN = 11"
| "errno_num ENOMEM = 12"
| "errno_num EINVAL = 22"
| "errno_num ENOSYS = 38"

fun strerror :: "errno \<Rightarrow> string" where
  "strerror EPERM = ''Operation not permitted''"
| "strerror ENOENT = ''No such file or directory''"
| "strerror ESRCH = ''No such process''"
| "strerror EAGAIN = ''Resource temporarily unavailable''"
| "strerror ENOMEM = ''Cannot allocate memory''"
| "strerror EINVAL = ''Invalid argument''"
| "strerror ENOSYS = ''Function not implemented''"

text \<open>
  \<^verbatim>\<open>str(err.args)\<close> is the text of the pair, the message in single quotes (none of
  the messages needs escaping); \<^verbatim>\<open>str(err)\<close> is what \<^verbatim>\<open>'{0}'.format(err)\<close> gives.
\<close>

definition str_args :: "errno \<Rightarrow> string" where
  "str_args e = ''('' @ str_int (errno_num e) @ '', '' @ [CHR 0x27] @ strerror e @ [CHR 0x27] @ '')''"

definition str_oserror :: "errno \<Rightarrow> string" where
  "str_oserror e = ''[Errno '' @ str_int (errno_num e) @ ''] '' @ strerror e"

datatype exn = SystemExit int | OSError errno | ValueError | OverflowError

text \<open>
  The exit status of the interpreter: 0 when the program returns, the argument of
  \<^verbatim>\<open>sys.exit\<close>, and 1 for any other exception that nobody caught.
\<close>

fun exit_status :: "exn + unit \<Rightarrow> int" where
  "exit_status (Inr u) = 0"
| "exit_status (Inl (SystemExit n)) = n"
| "exit_status (Inl e) = 1"

subsection \<open>Process state and actions\<close>

type_synonym path = string

datatype stream = Stdin | Stdout | Stderr

text \<open>The actions of a process on the world outside it, \<open>'a\<close> the worker's arguments.\<close>

datatype 'a event =
    Write stream string
  | Fork
  | Chdir path
  | Setsid
  | Umask nat
  | Flush stream
  | OpenDevnull string
  | Dup2Devnull stream
  | AtexitRegister path
  | WriteFile path string
  | RemoveFile path
  | Kill int nat
  | Sleep_ms nat
  | CallRun 'a

text \<open>
  The file system maps an absolute path to the text of the file there. A relative path
  is resolved against the working directory of the process, as \<^verbatim>\<open>open\<close> does;
  links, dots and permissions are not modelled.
\<close>

record 'a proc =
  files :: "path \<rightharpoonup> string"
  cwd :: path
  atexit :: "path list"
  log :: "'a event list"

definition resolve :: "path \<Rightarrow> path \<Rightarrow> path" where
  "resolve dir p = (case p of
       [] \<Rightarrow> dir
     | c # cs \<Rightarrow> if c = CHR ''/'' then p
                else if dir = ''/'' then ''/'' @ p else dir @ ''/'' @ p)"

definition emit :: "'a event list \<Rightarrow> 'a proc \<Rightarrow> 'a proc" where
  "emit es s = s\<lparr>log := log s @ es\<rparr>"

definition SIGTERM :: nat where
  "SIGTERM = 15"

record daemon =
  pidfile :: path

subsection \<open>What the operating system answers\<close>

text \<open>
  \<^verbatim>\<open>os.fork()\<close> raises an \<^verbatim>\<open>OSError\<close> or returns an integer to the calling
  process: 0 in the child, the identifier of the child in the parent. One run of
  \<open>start\<close> follows one process through both calls.
\<close>

datatype fork_result = ForkFailed errno | ForkReturned int

record start_env =
  fork1 :: fork_result
  fork2 :: fork_result
  getpid :: int

text \<open>
  \<open>kill_results env i\<close> is the outcome of the system call of the \<open>i\<close>-th call of
  \<^verbatim>\<open>os.kill\<close> (counted from 0). \<open>unlinked env\<close> tells whether the exit handler of
  the target has removed the pidfile by the time \<open>stop\<close> looks for it again, the one
  interference of another process that the source guards against.
\<close>

datatype kill_result = Delivered | Failed errno

record stop_env =
  kill_results :: "nat \<Rightarrow> kill_result"
  unlinked :: bool

subsection \<open>Reading the pidfile\<close>

text \<open>
  Lines 105 to 110 and 126 to 130:
  \<^verbatim>\<open>
  try:
      with open(self.pidfile,'r') as pf:
          pid = int(pf.read().strip())
  except IOError:
      pid = None
  \<close>
  A missing file is the \<^verbatim>\<open>IOError\<close> that is caught; the \<^verbatim>\<open>ValueError\<close> of
  \<^verbatim>\<open>int\<close> is not caught.
\<close>

definition read_pid :: "daemon \<Rightarrow> 'a proc \<Rightarrow> exn + int option" where
  "read_pid d s = (case files s (resolve (cwd s) (pidfile d)) of
       None \<Rightarrow> Inr None
     | Some text \<Rightarrow>
         (case py_int (strip text) of
            None \<Rightarrow> Inl ValueError
          | Some n \<Rightarrow> Inr (Some n)))"

text \<open>The truth value of \<^verbatim>\<open>pid\<close>: false for \<^verbatim>\<open>None\<close> and for 0.\<close>

fun truthy :: "int option \<Rightarrow> bool" where
  "truthy None = False"
| "truthy (Some n) = (n \<noteq> 0)"

subsection \<open>daemonize, delpid, start\<close>

definition redirect :: "'a event list" where
  "redirect =
     [Flush Stdout, Flush Stderr,
      OpenDevnull ''r'', OpenDevnull ''a+'', OpenDevnull ''a+'',
      Dup2Devnull Stdin, Dup2Devnull Stdout, Dup2Devnull Stderr]"

definition daemonize :: "daemon \<Rightarrow> start_env \<Rightarrow> 'a proc \<Rightarrow> (exn + unit) \<times> 'a proc" where
  "daemonize d env s =
     (let s1 = emit [Fork] s in
      case fork1 env of
        ForkFailed err \<Rightarrow>
          (Inl (SystemExit 1),
           emit [Write Stderr (''fork #1 failed: '' @ str_oserror err @ nl)] s1)
      | ForkReturned pid1 \<Rightarrow>
          if pid1 > 0 then (Inl (SystemExit 0), s1)
          else
            let s2 = emit [Chdir ''/'', Setsid, Umask 0] (s1\<lparr>cwd := ''/''\<rparr>);
                s3 = emit [Fork] s2 in
            case fork2 env of
              ForkFailed err \<Rightarrow>
                (Inl (SystemExit 1),
                 emit [Write Stderr (''fork #2 failed: '' @ str_oserror err @ nl)] s3)
            | ForkReturned pid2 \<Rightarrow>
                if pid2 > 0 then (Inl (SystemExit 0), s3)
                else
                  let s4 = emit redirect s3;
                      s5 = emit [AtexitRegister (pidfile d)]
                             (s4\<lparr>atexit := atexit s4 @ [pidfile d]\<rparr>);
                      pid = str_int (getpid env);
                      f = resolve (cwd s5) (pidfile d)
                  in (Inr (),
                      emit [WriteFile f (pid @ nl)]
                        (s5\<lparr>files := (files s5)(f \<mapsto> pid @ nl)\<rparr>)))"

text \<open>\<^verbatim>\<open>os.remove\<close> of a file that is not there raises \<^verbatim>\<open>FileNotFoundError\<close>.\<close>

definition delpid :: "daemon \<Rightarrow> 'a proc \<Rightarrow> (exn + unit) \<times> 'a proc" where
  "delpid d s =
     (let f = resolve (cwd s) (pidfile d) in
      case files s f of
        None \<Rightarrow> (Inl (OSError ENOENT), s)
      | Some text \<Rightarrow> (Inr (), emit [RemoveFile f] (s\<lparr>files := (files s)(f := None)\<rparr>)))"

definition already_running :: "path \<Rightarrow> string" where
  "already_running p = ''pidfile '' @ p @ '' already exist. Daemon already running?'' @ nl"

text \<open>
  The worker \<^verbatim>\<open>self.run\<close> is the method a subclass overrides; it is a parameter
  here, and the call is logged before it runs.
\<close>

definition start ::
  "daemon \<Rightarrow> ('a \<Rightarrow> 'a proc \<Rightarrow> (exn + unit) \<times> 'a proc) \<Rightarrow> 'a \<Rightarrow> start_env \<Rightarrow> 'a proc
     \<Rightarrow> (exn + unit) \<times> 'a proc" where
  "start d run args env s =
     (case read_pid d s of
        Inl e \<Rightarrow> (Inl e, s)
      | Inr pid \<Rightarrow>
          if truthy pid
          then (Inl (SystemExit 1), emit [Write Stderr (already_running (pidfile d))] s)
          else
            (case daemonize d env s of
               (Inl e, s') \<Rightarrow> (Inl e, s')
             | (Inr u, s') \<Rightarrow> run args (emit [CallRun args] s')))"

subsection \<open>stop, restart\<close>

text \<open>
  \<^verbatim>\<open>os.kill\<close> converts the identifier to a C \<^verbatim>\<open>int\<close> first and raises
  \<^verbatim>\<open>OverflowError\<close>, without a system call, when it does not fit.
\<close>

definition c_int :: "int \<Rightarrow> bool" where
  "c_int n = (- (2 ^ 31) \<le> n \<and> n < 2 ^ 31)"

text \<open>
  Lines 140 to 142, \<^verbatim>\<open>while 1: os.kill(pid, signal.SIGTERM); time.sleep(0.1)\<close>:
  the loop ends only by an exception, which is returned with the state it left.
\<close>

partial_function (option) kill_loop ::
  "(nat \<Rightarrow> kill_result) \<Rightarrow> int \<Rightarrow> nat \<Rightarrow> 'a proc \<Rightarrow> (exn \<times> 'a proc) option" where
  "kill_loop kr pid i s =
     (if \<not> c_int pid then Some (OverflowError, s)
      else case kr i of
        Delivered \<Rightarrow> kill_loop kr pid (Suc i) (emit [Kill pid SIGTERM, Sleep_ms 100] s)
      | Failed err \<Rightarrow> Some (OSError err, emit [Kill pid SIGTERM] s))"

declare kill_loop.simps [code]

definition not_running :: "path \<Rightarrow> string" where
  "not_running p = ''pidfile '' @ p @ '' does not exist. Daemon not running?'' @ nl"

text \<open>
  Lines 143 to 150, the handler of \<^verbatim>\<open>OSError\<close>. Before
  \<^verbatim>\<open>os.path.exists\<close> looks, the target may have removed the file.
\<close>

definition on_oserror :: "daemon \<Rightarrow> stop_env \<Rightarrow> errno \<Rightarrow> 'a proc \<Rightarrow> (exn + unit) \<times> 'a proc" where
  "on_oserror d env err s =
     (let e = str_args err in
      if find e ''No such process'' > 0 then
        let f = resolve (cwd s) (pidfile d);
            s1 = (if unlinked env then s\<lparr>files := (files s)(f := None)\<rparr> else s)
        in if files s1 f \<noteq> None
           then (Inr (), emit [RemoveFile f] (s1\<lparr>files := (files s1)(f := None)\<rparr>))
           else (Inr (), s1)
      else (Inl (SystemExit 1), emit [Write Stdout (e @ nl)] s))"

text \<open>
  \<^verbatim>\<open>if not pid\<close> holds for \<^verbatim>\<open>None\<close> and for 0; an exception of the loop that
  is no \<^verbatim>\<open>OSError\<close> passes the handler.
\<close>

definition stop :: "daemon \<Rightarrow> stop_env \<Rightarrow> 'a proc \<Rightarrow> ((exn + unit) \<times> 'a proc) option" where
  "stop d env s =
     (case read_pid d s of
        Inl e \<Rightarrow> Some (Inl e, s)
      | Inr pid \<Rightarrow>
          (case pid of
             None \<Rightarrow> Some (Inr (), emit [Write Stderr (not_running (pidfile d))] s)
           | Some p \<Rightarrow>
               if p = 0
               then Some (Inr (), emit [Write Stderr (not_running (pidfile d))] s)
               else
                 (case kill_loop (kill_results env) p 0 s of
                    None \<Rightarrow> None
                  | Some (OSError err, s') \<Rightarrow> Some (on_oserror d env err s')
                  | Some (e, s') \<Rightarrow> Some (Inl e, s'))))"

definition restart ::
  "daemon \<Rightarrow> ('a \<Rightarrow> 'a proc \<Rightarrow> (exn + unit) \<times> 'a proc) \<Rightarrow> 'a \<Rightarrow> stop_env \<Rightarrow> start_env
     \<Rightarrow> 'a proc \<Rightarrow> ((exn + unit) \<times> 'a proc) option" where
  "restart d run args senv env s =
     (case stop d senv s of
        None \<Rightarrow> None
      | Some (Inl e, s') \<Rightarrow> Some (Inl e, s')
      | Some (Inr u, s') \<Rightarrow> Some (start d run args env s'))"

subsection \<open>Concrete scenarios\<close>

text \<open>
  The daemon of \<^verbatim>\<open>soundctld.py\<close> with its default pidfile, one with a relative
  pidfile, a worker that returns at once, and process states and environments to run
  them in.
\<close>

definition tmp_daemon :: daemon where
  "tmp_daemon = \<lparr>pidfile = ''/tmp/soundctld.pid''\<rparr>"

definition rel_daemon :: daemon where
  "rel_daemon = \<lparr>pidfile = ''d.pid''\<rparr>"

definition worker_returns :: "unit \<Rightarrow> unit proc \<Rightarrow> (exn + unit) \<times> unit proc" where
  "worker_returns args s = (Inr (), s)"

definition no_pidfile :: "unit proc" where
  "no_pidfile = \<lparr>files = Map.empty, cwd = ''/home/user'', atexit = [], log = []\<rparr>"

definition with_pidfile :: "string \<Rightarrow> unit proc" where
  "with_pidfile text =
     \<lparr>files = [''/tmp/soundctld.pid'' \<mapsto> text], cwd = ''/home/user'', atexit = [], log = []\<rparr>"

definition with_rel_pidfile :: "string \<Rightarrow> unit proc" where
  "with_rel_pidfile text =
     \<lparr>files = [''/home/user/d.pid'' \<mapsto> text], cwd = ''/home/user'', atexit = [], log = []\<rparr>"

definition invoker :: start_env where
  "invoker = \<lparr>fork1 = ForkReturned 4242, fork2 = ForkReturned 4243, getpid = 4241\<rparr>"

definition first_child :: start_env where
  "first_child = \<lparr>fork1 = ForkReturned 0, fork2 = ForkReturned 4243, getpid = 4242\<rparr>"

definition final_child :: start_env where
  "final_child = \<lparr>fork1 = ForkReturned 0, fork2 = ForkReturned 0, getpid = 4243\<rparr>"

definition fork1_fails :: start_env where
  "fork1_fails = \<lparr>fork1 = ForkFailed EAGAIN, fork2 = ForkReturned 0, getpid = 4241\<rparr>"

definition fork2_fails :: start_env where
  "fork2_fails = \<lparr>fork1 = ForkReturned 0, fork2 = ForkFailed ENOMEM, getpid = 4242\<rparr>"

definition dies_after :: "nat \<Rightarrow> stop_env" where
  "dies_after n =
     \<lparr>kill_results = (\<lambda>i. if i < n then Delivered else Failed ESRCH), unlinked = False\<rparr>"

definition not_permitted :: stop_env where
  "not_permitted = \<lparr>kill_results = (\<lambda>i. Failed EPERM), unlinked = False\<rparr>"

definition never_dies :: stop_env where
  "never_dies = \<lparr>kill_results = (\<lambda>i. Delivered), unlinked = False\<rparr>"

text \<open>
  A process went through both calls of \<^verbatim>\<open>os.fork\<close> as the child: neither call
  failed and neither returned a positive identifier.
\<close>

definition detached :: "start_env \<Rightarrow> bool" where
  "detached env = (case fork1 env of
       ForkFailed e \<Rightarrow> False
     | ForkReturned r1 \<Rightarrow>
         \<not> r1 > 0 \<and> (case fork2 env of ForkFailed e \<Rightarrow> False | ForkReturned r2 \<Rightarrow> \<not> r2 > 0))"

text \<open>\<open>before a b xs\<close>: \<open>a\<close> occurs in \<open>xs\<close>, and earlier than any \<open>b\<close>.\<close>

fun before :: "'a \<Rightarrow> 'a \<Rightarrow> 'a list \<Rightarrow> bool" where
  "before a b [] = False"
| "before a b (x # xs) = (if x = b then False else if x = a then True else before a b xs)"

section \<open>Properties\<close>

subsection \<open>The loop of stop\<close>

lemma no_such_process_iff: "(find (str_args e) ''No such process'' > 0) = (e = ESRCH)"
  by (cases e) (hypsubst, code_simp)+

lemma kill_loop_overflow: "\<not> c_int pid \<Longrightarrow> kill_loop kr pid i s = Some (OverflowError, s)"
  by (subst kill_loop.simps) simp

lemma kill_loop_fails:
  "c_int pid \<Longrightarrow> (\<forall>j<n. kr (i + j) = Delivered) \<Longrightarrow> kr (i + n) = Failed err \<Longrightarrow>
   kill_loop kr pid i s =
     Some (OSError err,
           emit (concat (replicate n [Kill pid SIGTERM, Sleep_ms 100]) @ [Kill pid SIGTERM]) s)"
proof (induction n arbitrary: i s)
  case 0
  then show ?case by (subst kill_loop.simps) simp
next
  case (Suc n)
  have d: "kr i = Delivered" using Suc.prems(2) by (metis add.right_neutral zero_less_Suc)
  have a: "\<forall>j<n. kr (Suc i + j) = Delivered" using Suc.prems(2) by (metis Suc_less_eq add_Suc_shift)
  have b: "kr (Suc i + n) = Failed err" using Suc.prems(3) by simp
  show ?case
    by (subst kill_loop.simps) (simp add: d Suc.prems(1) Suc.IH [OF Suc.prems(1) a b] emit_def)
qed

lemma kill_loop_Some:
  assumes "kill_loop kr pid i s = Some y"
  shows "\<not> c_int pid \<or> (\<exists>j\<ge>i. kr j \<noteq> Delivered)"
proof (rule kill_loop.raw_induct
    [where P = "\<lambda>kr pid i s y. \<not> c_int pid \<or> (\<exists>j\<ge>i. kr j \<noteq> Delivered)", OF _ assms])
  fix f :: "(nat \<Rightarrow> kill_result) \<Rightarrow> int \<Rightarrow> nat \<Rightarrow> 'a proc \<Rightarrow> (exn \<times> 'a proc) option"
  fix kr pid i s y
  assume IH: "\<And>kr pid i s y. f kr pid i s = Some y \<Longrightarrow> \<not> c_int pid \<or> (\<exists>j\<ge>i. kr j \<noteq> Delivered)"
  assume body: "(if \<not> c_int pid then Some (OverflowError, s)
      else case kr i of
           Delivered \<Rightarrow> f kr pid (Suc i) (emit [Kill pid SIGTERM, Sleep_ms 100] s)
           | Failed err \<Rightarrow> Some (OSError err, emit [Kill pid SIGTERM] s)) = Some y"
  show "\<not> c_int pid \<or> (\<exists>j\<ge>i. kr j \<noteq> Delivered)"
  proof (cases "c_int pid")
    case False
    then show ?thesis by simp
  next
    case True
    show ?thesis
    proof (cases "kr i")
      case Delivered
      with True body have "f kr pid (Suc i) (emit [Kill pid SIGTERM, Sleep_ms 100] s) = Some y"
        by simp
      from IH [OF this] True obtain j where "Suc i \<le> j" "kr j \<noteq> Delivered" by blast
      then show ?thesis by (metis Suc_leD)
    next
      case (Failed err)
      then show ?thesis by (metis kill_result.distinct(1) order_refl)
    qed
  qed
qed

lemma kill_loop_emits:
  assumes "kill_loop kr pid i s = Some y"
  shows "\<exists>es. snd y = emit es s"
proof (rule kill_loop.raw_induct
    [where P = "\<lambda>kr pid i s y. \<exists>es. snd y = emit es s", OF _ assms])
  fix f :: "(nat \<Rightarrow> kill_result) \<Rightarrow> int \<Rightarrow> nat \<Rightarrow> 'a proc \<Rightarrow> (exn \<times> 'a proc) option"
  fix kr pid i s y
  assume IH: "\<And>kr pid i s y. f kr pid i s = Some y \<Longrightarrow> \<exists>es. snd y = emit es s"
  assume body: "(if \<not> c_int pid then Some (OverflowError, s)
      else case kr i of
           Delivered \<Rightarrow> f kr pid (Suc i) (emit [Kill pid SIGTERM, Sleep_ms 100] s)
           | Failed err \<Rightarrow> Some (OSError err, emit [Kill pid SIGTERM] s)) = Some y"
  show "\<exists>es. snd y = emit es s"
  proof (cases "c_int pid")
    case False
    with body have "snd y = emit [] s" by (auto simp: emit_def)
    then show ?thesis ..
  next
    case True
    show ?thesis
    proof (cases "kr i")
      case Delivered
      with True body have "f kr pid (Suc i) (emit [Kill pid SIGTERM, Sleep_ms 100] s) = Some y"
        by simp
      from IH [OF this] obtain es where "snd y = emit es (emit [Kill pid SIGTERM, Sleep_ms 100] s)" ..
      then have "snd y = emit ([Kill pid SIGTERM, Sleep_ms 100] @ es) s" by (simp add: emit_def)
      then show ?thesis ..
    next
      case (Failed err)
      with True body have "snd y = emit [Kill pid SIGTERM] s" by auto
      then show ?thesis ..
    qed
  qed
qed

lemma kill_loop_None_iff:
  "c_int pid \<Longrightarrow> (kill_loop kr pid 0 s = None) = (\<forall>j. kr j = Delivered)"
proof
  assume c: "c_int pid" and n: "kill_loop kr pid 0 s = None"
  show "\<forall>j. kr j = Delivered"
  proof (rule ccontr)
    assume "\<not> (\<forall>j. kr j = Delivered)"
    then obtain j where j: "kr j \<noteq> Delivered" by blast
    define m where "m = (LEAST j. kr j \<noteq> Delivered)"
    have m1: "kr m \<noteq> Delivered" unfolding m_def using j by (rule LeastI)
    have m2: "\<forall>k<m. kr (0 + k) = Delivered" unfolding m_def using not_less_Least by fastforce
    from m1 obtain err where "kr (0 + m) = Failed err" by (cases "kr m") auto
    from kill_loop_fails [OF c m2 this, of s] n show False by simp
  qed
next
  assume c: "c_int pid" and a: "\<forall>j. kr j = Delivered"
  show "kill_loop kr pid 0 s = None"
  proof (cases "kill_loop kr pid 0 s")
    case None then show ?thesis .
  next
    case (Some y)
    from kill_loop_Some [OF this] c a show ?thesis by simp
  qed
qed

subsection \<open>Writing and reading a process identifier\<close>

lemma is_digit_digit_char: "n < 10 \<Longrightarrow> is_digit (digit_char n)"
  by (simp add: is_digit_def digit_char_def)

lemma digit_val_digit_char: "n < 10 \<Longrightarrow> digit_val (digit_char n) = n"
  by (simp add: digit_val_def digit_char_def)

lemma is_digit_not_space: "is_digit c \<Longrightarrow> \<not> py_isspace c"
  by (auto simp: is_digit_def py_isspace_def Let_def)

lemma str_nat_digits: "\<forall>c\<in>set (str_nat n). is_digit c"
proof (induction n rule: str_nat.induct)
  case (1 n)
  show ?case
  proof (cases "n < 10")
    case True
    then show ?thesis by (subst str_nat.simps) (simp add: is_digit_digit_char)
  next
    case False
    with 1 show ?thesis by (subst str_nat.simps) (simp add: is_digit_digit_char)
  qed
qed

lemma str_nat_nonempty: "str_nat n \<noteq> []"
  by (subst str_nat.simps) simp

lemma digits_tail_all:
  "\<forall>c\<in>set xs. is_digit c \<Longrightarrow>
   digits_tail acc xs = Some (foldl (\<lambda>a c. a * 10 + digit_val c) acc xs)"
  by (induction acc xs rule: digits_tail.induct) auto

lemma py_digits_all:
  "xs \<noteq> [] \<Longrightarrow> \<forall>c\<in>set xs. is_digit c \<Longrightarrow>
   py_digits xs = Some (foldl (\<lambda>a c. a * 10 + digit_val c) 0 xs)"
  by (cases xs) (simp_all add: py_digits_def digits_tail_all)

lemma foldl_str_nat: "foldl (\<lambda>a c. a * 10 + digit_val c) 0 (str_nat n) = n"
proof (induction n rule: str_nat.induct)
  case (1 n)
  show ?case
  proof (cases "n < 10")
    case True
    then show ?thesis by (subst str_nat.simps) (simp add: digit_val_digit_char)
  next
    case False
    with 1 show ?thesis by (subst str_nat.simps) (simp add: digit_val_digit_char)
  qed
qed

lemma py_digits_str_nat: "py_digits (str_nat n) = Some n"
  by (simp add: py_digits_all str_nat_nonempty str_nat_digits foldl_str_nat)

lemma dropWhile_clean: "xs \<noteq> [] \<Longrightarrow> \<not> P (hd xs) \<Longrightarrow> dropWhile P xs = xs"
  by (cases xs) simp_all

lemma strip_clean:
  assumes "s \<noteq> []" "\<not> py_isspace (hd s)" "\<not> py_isspace (last s)"
  shows "strip s = s"
proof -
  have a: "dropWhile py_isspace s = s" using assms(1,2) by (cases s) simp_all
  have "rev s \<noteq> []" "\<not> py_isspace (hd (rev s))" using assms(1,3) by (simp_all add: hd_rev)
  then have b: "dropWhile py_isspace (rev s) = rev s" by (rule dropWhile_clean)
  show ?thesis by (simp add: strip_def a b)
qed

lemma strip_nl:
  assumes "s \<noteq> []" "\<not> py_isspace (hd s)" "\<not> py_isspace (last s)"
  shows "strip (s @ nl) = s"
proof -
  have a: "dropWhile py_isspace (s @ nl) = s @ nl" using assms(1,2) by (cases s) simp_all
  have sp: "py_isspace (char_of (10::nat))" by (simp add: py_isspace_def)
  have "rev s \<noteq> []" "\<not> py_isspace (hd (rev s))" using assms(1,3) by (simp_all add: hd_rev)
  then have b: "dropWhile py_isspace (rev s) = rev s" by (rule dropWhile_clean)
  have c: "rev (s @ nl) = char_of (10::nat) # rev s" by (simp add: nl_def)
  have "strip (s @ nl) = rev (dropWhile py_isspace (char_of (10::nat) # rev s))"
    by (simp only: strip_def a c)
  also have "\<dots> = rev (dropWhile py_isspace (rev s))" using sp by simp
  also have "\<dots> = s" by (simp add: b)
  finally show ?thesis .
qed

lemma str_int_clean:
  "str_int i \<noteq> [] \<and> \<not> py_isspace (hd (str_int i)) \<and> \<not> py_isspace (last (str_int i))"
proof -
  have h: "\<not> py_isspace (hd (str_nat n))" for n
    using str_nat_digits [of n] str_nat_nonempty [of n] is_digit_not_space
    by (cases "str_nat n") auto
  have l: "\<not> py_isspace (last (str_nat n))" for n
    using str_nat_digits [of n] str_nat_nonempty [of n] is_digit_not_space last_in_set by blast
  have m: "\<not> py_isspace CHR ''-''" by (simp add: py_isspace_def)
  show ?thesis
    by (simp add: str_int_def h l m str_nat_nonempty)
qed

lemma py_int_str_int: "py_int (str_int i) = Some i"
proof -
  have s: "strip (str_int i) = str_int i" using str_int_clean [of i] by (simp add: strip_clean)
  show ?thesis
  proof (cases "i < 0")
    case True
    then show ?thesis using s by (simp add: py_int_def str_int_def py_digits_str_nat)
  next
    case False
    obtain c cs where cs: "str_nat (nat i) = c # cs" using str_nat_nonempty by (cases "str_nat (nat i)") auto
    have "is_digit c" using str_nat_digits [of "nat i"] cs by simp
    then have "c \<noteq> CHR ''-''" "c \<noteq> CHR ''+''" by (auto simp: is_digit_def)
    moreover have "py_digits (c # cs) = Some (nat i)" using py_digits_str_nat [of "nat i"] cs by simp
    ultimately show ?thesis using s False cs by (simp add: py_int_def str_int_def)
  qed
qed

lemma read_back: "py_int (strip (str_int i @ nl)) = Some i"
  using str_int_clean [of i] by (simp add: strip_nl py_int_str_int)

lemma str_int_no_nl: "char_of (10::nat) \<notin> set (str_int i)"
proof -
  have "\<not> is_digit (char_of (10::nat))" by (simp add: is_digit_def)
  then have "char_of (10::nat) \<notin> set (str_nat n)" for n using str_nat_digits by blast
  moreover have "char_of (10::nat) \<noteq> CHR ''-''" by code_simp
  ultimately show ?thesis by (simp add: str_int_def)
qed

subsection \<open>Claims on the error paths\<close>

text \<open>
  C1. When the pidfile exists and its content parses to an integer other than 0,
  \<open>start\<close> writes the "already running" message to the error stream and exits with
  status 1. Nothing else happens: the log gains that one action, so the process does not
  fork and does not call the worker, and no answer of the operating system about any
  process enters the result.
\<close>

theorem start_already_running:
  assumes "files s (resolve (cwd s) (pidfile d)) = Some text"
    and "py_int (strip text) = Some n" and "n \<noteq> 0"
  shows "start d run args env s
           = (Inl (SystemExit 1), emit [Write Stderr (already_running (pidfile d))] s)
       \<and> exit_status (fst (start d run args env s)) = 1"
  using assms by (simp add: start_def read_pid_def)

theorem start_already_running_witness:
  "files (with_pidfile (''4243'' @ nl)) (resolve (cwd (with_pidfile (''4243'' @ nl))) (pidfile tmp_daemon))
      = Some (''4243'' @ nl)
   \<and> py_int (strip (''4243'' @ nl)) = Some 4243 \<and> (4243::int) \<noteq> 0
   \<and> start tmp_daemon worker_returns () final_child (with_pidfile (''4243'' @ nl))
       = (Inl (SystemExit 1), (with_pidfile (''4243'' @ nl))\<lparr>log :=
           [Write Stderr (''pidfile /tmp/soundctld.pid already exist. Daemon already running?'' @ nl)]\<rparr>)"
proof -
  have f: "files (with_pidfile (''4243'' @ nl)) (resolve (cwd (with_pidfile (''4243'' @ nl))) (pidfile tmp_daemon))
      = Some (''4243'' @ nl)"
    by (simp add: with_pidfile_def tmp_daemon_def resolve_def)
  have p: "py_int (strip (''4243'' @ nl)) = Some 4243" by code_simp
  have n: "(4243::int) \<noteq> 0" by simp
  show ?thesis
    using f p start_already_running [OF f p n, of worker_returns "()" final_child]
    by (simp add: emit_def already_running_def tmp_daemon_def with_pidfile_def)
qed

text \<open>
  C3. When the pidfile is absent, \<open>stop\<close> returns without an error, its exit status
  is 0, it has written the "not running" message and sent no signal, and the file system
  is as before, so no pidfile is left behind.
\<close>

theorem stop_without_pidfile:
  assumes "files s (resolve (cwd s) (pidfile d)) = None"
  shows "stop d env s = Some (Inr (), emit [Write Stderr (not_running (pidfile d))] s)
       \<and> map_option (exit_status \<circ> fst) (stop d env s) = Some 0
       \<and> map_option (files \<circ> snd) (stop d env s) = Some (files s)
       \<and> map_option (log \<circ> snd) (stop d env s)
           = Some (log s @ [Write Stderr (not_running (pidfile d))])"
  using assms by (simp add: stop_def read_pid_def emit_def)

theorem stop_without_pidfile_witness:
  "files no_pidfile (resolve (cwd no_pidfile) (pidfile tmp_daemon)) = None
   \<and> stop tmp_daemon never_dies no_pidfile
       = Some (Inr (), no_pidfile\<lparr>log :=
           [Write Stderr (''pidfile /tmp/soundctld.pid does not exist. Daemon not running?'' @ nl)]\<rparr>)"
proof -
  have h: "files no_pidfile (resolve (cwd no_pidfile) (pidfile tmp_daemon)) = None"
    by (simp add: no_pidfile_def)
  show ?thesis
    using h stop_without_pidfile [OF h, of never_dies]
    by (simp add: emit_def not_running_def tmp_daemon_def no_pidfile_def)
qed

text \<open>
  C9. When the content of the pidfile does not parse as an integer, \<open>start\<close> and
  \<open>stop\<close> both end with the \<^verbatim>\<open>ValueError\<close> that nobody catches, in an
  unchanged state: neither message has been written.
\<close>

theorem unparsable_pidfile_raises:
  assumes "files s (resolve (cwd s) (pidfile d)) = Some text"
    and "py_int (strip text) = None"
  shows "start d run args env s = (Inl ValueError, s)
       \<and> stop d senv s = Some (Inl ValueError, s)"
  using assms by (simp add: start_def stop_def read_pid_def)

theorem unparsable_pidfile_raises_witness:
  "files (with_pidfile '''') (resolve (cwd (with_pidfile '''')) (pidfile tmp_daemon)) = Some ''''
   \<and> py_int (strip '''') = None
   \<and> start tmp_daemon worker_returns () final_child (with_pidfile '''')
        = (Inl ValueError, with_pidfile '''')
   \<and> stop tmp_daemon (dies_after 0) (with_pidfile '''') = Some (Inl ValueError, with_pidfile '''')"
proof -
  have f: "files (with_pidfile '''') (resolve (cwd (with_pidfile '''')) (pidfile tmp_daemon)) = Some ''''"
    by (simp add: with_pidfile_def tmp_daemon_def resolve_def)
  have p: "py_int (strip '''') = None" by code_simp
  show ?thesis
    using f p unparsable_pidfile_raises [OF f p, of worker_returns "()" final_child "dies_after 0"]
    by simp
qed

subsection \<open>Claims on stop\<close>

lemma read_pid_Some:
  "read_pid d s = Inr (Some p) \<Longrightarrow> files s (resolve (cwd s) (pidfile d)) \<noteq> None"
  by (auto simp: read_pid_def split: option.splits)

lemma stop_run:
  assumes pid: "read_pid d s = Inr (Some p)" and nz: "p \<noteq> 0" and c: "c_int p"
    and ok: "\<forall>j<n. kill_results env j = Delivered"
    and bad: "kill_results env n = Failed err"
  shows "stop d env s =
     Some (if err = ESRCH
           then (Inr (),
                 s\<lparr>files := (files s)(resolve (cwd s) (pidfile d) := None),
                   log := log s @ concat (replicate n [Kill p SIGTERM, Sleep_ms 100])
                          @ [Kill p SIGTERM]
                          @ (if unlinked env then [] else [RemoveFile (resolve (cwd s) (pidfile d))])\<rparr>)
           else (Inl (SystemExit 1),
                 s\<lparr>log := log s @ concat (replicate n [Kill p SIGTERM, Sleep_ms 100])
                          @ [Kill p SIGTERM, Write Stdout (str_args err @ nl)]\<rparr>))"
proof -
  have ok': "\<forall>j<n. kill_results env (0 + j) = Delivered" using ok by simp
  have bad': "kill_results env (0 + n) = Failed err" using bad by simp
  have loop: "kill_loop (kill_results env) p 0 s =
     Some (OSError err,
           emit (concat (replicate n [Kill p SIGTERM, Sleep_ms 100]) @ [Kill p SIGTERM]) s)"
    by (rule kill_loop_fails [OF c ok' bad'])
  have ex: "files s (resolve (cwd s) (pidfile d)) \<noteq> None" using pid by (rule read_pid_Some)
  have st: "stop d env s = Some (on_oserror d env err
      (emit (concat (replicate n [Kill p SIGTERM, Sleep_ms 100]) @ [Kill p SIGTERM]) s))"
    using pid nz by (simp add: stop_def loop)
  show ?thesis
  proof (cases "err = ESRCH")
    case True
    have t: "find (str_args ESRCH) ''No such process'' > 0"
      using no_such_process_iff [of ESRCH] by simp
    show ?thesis using ex True
      by (auto simp: st on_oserror_def t emit_def Let_def)
  next
    case False
    then have t: "\<not> find (str_args err) ''No such process'' > 0" by (simp add: no_such_process_iff)
    show ?thesis using False
      by (simp add: st on_oserror_def t emit_def Let_def)
  qed
qed

lemma read_pid_tmp:
  "py_int (strip text) = Some n \<Longrightarrow> read_pid tmp_daemon (with_pidfile text) = Inr (Some n)"
  by (simp add: read_pid_def with_pidfile_def tmp_daemon_def resolve_def)

lemma py_int_4243: "py_int (strip (''4243'' @ nl)) = Some 4243"
  by code_simp

lemma c_int_4243: "c_int 4243"
  by (simp add: c_int_def)

lemma two_rounds: "replicate 2 x = [x, x]"
  by (simp add: numeral_2_eq_2)

text \<open>
  C2. When the pidfile holds a process identifier \<open>p\<close> (an integer other than 0 that
  fits a C \<^verbatim>\<open>int\<close>), and the first \<open>n\<close> deliveries succeed and the next one
  fails with \<open>err\<close>, then \<open>stop\<close> has sent \<^verbatim>\<open>SIGTERM\<close> to \<open>p\<close> exactly
  \<open>n + 1\<close> times, sleeping 100 milliseconds after each delivery. If the error is
  "no such process", the pidfile is gone afterwards (removed by \<open>stop\<close> unless the
  target had removed it) and \<open>stop\<close> returns without error; for any other error it
  prints the error and exits with status 1, the pidfile untouched.
\<close>

theorem stop_signals_until_failure:
  assumes "read_pid d s = Inr (Some p)" and "p \<noteq> 0" and "c_int p"
    and "\<forall>j<n. kill_results env j = Delivered"
    and "kill_results env n = Failed err"
  shows "stop d env s =
     Some (if err = ESRCH
           then (Inr (),
                 s\<lparr>files := (files s)(resolve (cwd s) (pidfile d) := None),
                   log := log s @ concat (replicate n [Kill p SIGTERM, Sleep_ms 100])
                          @ [Kill p SIGTERM]
                          @ (if unlinked env then [] else [RemoveFile (resolve (cwd s) (pidfile d))])\<rparr>)
           else (Inl (SystemExit 1),
                 s\<lparr>log := log s @ concat (replicate n [Kill p SIGTERM, Sleep_ms 100])
                          @ [Kill p SIGTERM, Write Stdout (str_args err @ nl)]\<rparr>))"
  using assms by (rule stop_run)

theorem stop_signals_until_failure_witness:
  "read_pid tmp_daemon (with_pidfile (''4243'' @ nl)) = Inr (Some 4243)
   \<and> (4243::int) \<noteq> 0 \<and> c_int 4243
   \<and> kill_results (dies_after 2) 0 = Delivered
   \<and> kill_results (dies_after 2) 1 = Delivered
   \<and> kill_results (dies_after 2) 2 = Failed ESRCH
   \<and> stop tmp_daemon (dies_after 2) (with_pidfile (''4243'' @ nl)) =
       Some (Inr (),
             \<lparr>files = Map.empty, cwd = ''/home/user'', atexit = [],
              log = [Kill 4243 15, Sleep_ms 100, Kill 4243 15, Sleep_ms 100, Kill 4243 15,
                     RemoveFile ''/tmp/soundctld.pid'']\<rparr>)"
proof -
  have r: "read_pid tmp_daemon (with_pidfile (''4243'' @ nl)) = Inr (Some 4243)"
    by (rule read_pid_tmp [OF py_int_4243])
  have n: "(4243::int) \<noteq> 0" by simp
  have ok: "\<forall>j<2. kill_results (dies_after 2) j = Delivered" by (simp add: dies_after_def)
  have bad: "kill_results (dies_after 2) 2 = Failed ESRCH" by (simp add: dies_after_def)
  have two: "replicate 2 x = [x, x]" for x :: "unit event list"
    by (simp add: numeral_2_eq_2)
  show ?thesis
    using r ok bad c_int_4243 stop_signals_until_failure [OF r n c_int_4243 ok bad]
    by (simp add: two with_pidfile_def tmp_daemon_def resolve_def SIGTERM_def dies_after_def)
qed

text \<open>
  C6. The loop has no bound: for a pidfile holding a process identifier, \<open>stop\<close>
  never returns exactly when every delivery succeeds; it returns if and only if some
  delivery fails.
\<close>

theorem stop_loop_unbounded:
  assumes pid: "read_pid d s = Inr (Some p)" and nz: "p \<noteq> 0" and c: "c_int p"
  shows "(stop d env s = None) = (\<forall>i. kill_results env i = Delivered)"
proof -
  have "(stop d env s = None) = (kill_loop (kill_results env) p 0 s = None)"
    using pid nz by (auto simp: stop_def split: option.splits prod.splits exn.splits)
  then show ?thesis using c by (simp add: kill_loop_None_iff)
qed

theorem stop_loop_unbounded_witness:
  "read_pid tmp_daemon (with_pidfile (''4243'' @ nl)) = Inr (Some 4243)
   \<and> (4243::int) \<noteq> 0 \<and> c_int 4243
   \<and> stop tmp_daemon never_dies (with_pidfile (''4243'' @ nl)) = None
   \<and> stop tmp_daemon (dies_after 2) (with_pidfile (''4243'' @ nl)) \<noteq> None"
proof -
  have r: "read_pid tmp_daemon (with_pidfile (''4243'' @ nl)) = Inr (Some 4243)"
    by (rule read_pid_tmp [OF py_int_4243])
  have n: "(4243::int) \<noteq> 0" by simp
  have a: "\<forall>i. kill_results never_dies i = Delivered" by (simp add: never_dies_def)
  have b: "\<not> (\<forall>i. kill_results (dies_after 2) i = Delivered)"
    by (auto simp: dies_after_def intro: exI [of _ 2])
  show ?thesis
    using r c_int_4243 a b
      stop_loop_unbounded [OF r n c_int_4243, of never_dies]
      stop_loop_unbounded [OF r n c_int_4243, of "dies_after 2"]
    by simp
qed

lemma first_stop:
  "stop tmp_daemon (dies_after 2) (with_pidfile (''4243'' @ nl)) =
     Some (Inr (),
           \<lparr>files = Map.empty, cwd = ''/home/user'', atexit = [],
            log = [Kill 4243 15, Sleep_ms 100, Kill 4243 15, Sleep_ms 100, Kill 4243 15,
                   RemoveFile ''/tmp/soundctld.pid'']\<rparr>)"
proof -
  have r: "read_pid tmp_daemon (with_pidfile (''4243'' @ nl)) = Inr (Some 4243)"
    by (rule read_pid_tmp [OF py_int_4243])
  have n: "(4243::int) \<noteq> 0" by simp
  have ok: "\<forall>j<2. kill_results (dies_after 2) j = Delivered" by (simp add: dies_after_def)
  have bad: "kill_results (dies_after 2) 2 = Failed ESRCH" by (simp add: dies_after_def)
  show ?thesis
    using stop_run [OF r n c_int_4243 ok bad]
    by (simp add: two_rounds with_pidfile_def tmp_daemon_def resolve_def SIGTERM_def dies_after_def)
qed

lemma on_oserror_returns:
  "on_oserror d env err s' = (Inr (), s1) \<Longrightarrow>
   files s1 (resolve (cwd s1) (pidfile d)) = None"
  by (auto simp: on_oserror_def Let_def emit_def split: if_splits)

lemma stop_twice_aux:
  assumes "stop d env1 s = Some (Inr (), s1)"
  shows "read_pid d s1 = Inr None \<or> read_pid d s1 = Inr (Some 0)"
proof (cases "read_pid d s")
  case (Inl e)
  with assms show ?thesis by (simp add: stop_def)
next
  case (Inr pid)
  show ?thesis
  proof (cases pid)
    case None
    with Inr assms have "s1 = emit [Write Stderr (not_running (pidfile d))] s"
      by (simp add: stop_def)
    then have "read_pid d s1 = read_pid d s" by (simp add: read_pid_def emit_def)
    with Inr None show ?thesis by simp
  next
    case (Some p)
    show ?thesis
    proof (cases "p = 0")
      case True
      with Inr Some assms have "s1 = emit [Write Stderr (not_running (pidfile d))] s"
        by (simp add: stop_def)
      then have "read_pid d s1 = read_pid d s" by (simp add: read_pid_def emit_def)
      with Inr Some True show ?thesis by simp
    next
      case False
      with Inr Some assms obtain err s' where "on_oserror d env1 err s' = (Inr (), s1)"
        by (auto simp: stop_def split: option.splits prod.splits exn.splits)
      then have "files s1 (resolve (cwd s1) (pidfile d)) = None" by (rule on_oserror_returns)
      then show ?thesis by (simp add: read_pid_def)
    qed
  qed
qed

lemma py_int_1: "py_int (strip (''1'' @ nl)) = Some 1"
  by code_simp

lemma c_int_1: "c_int 1"
  by (simp add: c_int_def)

text \<open>
  C7, as stated, fails: a first \<open>stop\<close> need not return. With a pidfile that names a
  process the caller may not signal, the first \<open>stop\<close> exits with status 1 and leaves
  the pidfile, and the second \<open>stop\<close> signals again and exits with status 1 as well.
\<close>

theorem stop_after_failed_stop_counterexample:
  "stop tmp_daemon not_permitted (with_pidfile (''1'' @ nl)) =
     Some (Inl (SystemExit 1),
           \<lparr>files = [''/tmp/soundctld.pid'' \<mapsto> ''1'' @ nl], cwd = ''/home/user'', atexit = [],
            log = [Kill 1 15, Write Stdout (str_args EPERM @ nl)]\<rparr>)
   \<and> stop tmp_daemon not_permitted
        (\<lparr>files = [''/tmp/soundctld.pid'' \<mapsto> ''1'' @ nl], cwd = ''/home/user'', atexit = [],
          log = [Kill 1 15, Write Stdout (str_args EPERM @ nl)]\<rparr> :: unit proc) =
     Some (Inl (SystemExit 1),
           \<lparr>files = [''/tmp/soundctld.pid'' \<mapsto> ''1'' @ nl], cwd = ''/home/user'', atexit = [],
            log = [Kill 1 15, Write Stdout (str_args EPERM @ nl),
                   Kill 1 15, Write Stdout (str_args EPERM @ nl)]\<rparr>)
   \<and> exit_status (Inl (SystemExit 1)) \<noteq> 0"
proof -
  let ?s1 = "\<lparr>files = [''/tmp/soundctld.pid'' \<mapsto> ''1'' @ nl], cwd = ''/home/user'',
              atexit = [], log = [Kill 1 15, Write Stdout (str_args EPERM @ nl)]\<rparr> :: unit proc"
  have r0: "read_pid tmp_daemon (with_pidfile (''1'' @ nl)) = Inr (Some 1)"
    by (rule read_pid_tmp [OF py_int_1])
  have r1: "read_pid tmp_daemon ?s1 = Inr (Some 1)"
    using py_int_1 by (simp add: read_pid_def tmp_daemon_def resolve_def)
  have n: "(1::int) \<noteq> 0" by simp
  have ok: "\<forall>j<0. kill_results not_permitted j = Delivered" by simp
  have bad: "kill_results not_permitted 0 = Failed EPERM" by (simp add: not_permitted_def)
  have a: "stop tmp_daemon not_permitted (with_pidfile (''1'' @ nl)) = Some (Inl (SystemExit 1), ?s1)"
    using stop_run [OF r0 n c_int_1 ok bad]
    by (simp add: with_pidfile_def SIGTERM_def del: str_args_def)
  have b: "stop tmp_daemon not_permitted ?s1 =
     Some (Inl (SystemExit 1), ?s1\<lparr>log := log ?s1 @ [Kill 1 15, Write Stdout (str_args EPERM @ nl)]\<rparr>)"
    using stop_run [OF r1 n c_int_1 ok bad]
    by (simp add: SIGTERM_def)
  show ?thesis using a b by simp
qed

text \<open>
  C7, amended. Whenever a first \<open>stop\<close> returns without error, a second \<open>stop\<close>
  right after it, whatever the operating system would answer, only writes the
  "not running" message: it returns with exit status 0, sends no signal and leaves the
  file system as the first one left it.
\<close>

theorem stop_after_stop:
  assumes "stop d env1 s = Some (Inr (), s1)"
  shows "stop d env2 s1 = Some (Inr (), emit [Write Stderr (not_running (pidfile d))] s1)
       \<and> map_option (exit_status \<circ> fst) (stop d env2 s1) = Some 0
       \<and> map_option (files \<circ> snd) (stop d env2 s1) = Some (files s1)
       \<and> map_option (log \<circ> snd) (stop d env2 s1)
           = Some (log s1 @ [Write Stderr (not_running (pidfile d))])"
  using stop_twice_aux [OF assms] by (auto simp: stop_def emit_def)

theorem stop_after_stop_witness:
  "stop tmp_daemon (dies_after 2) (with_pidfile (''4243'' @ nl)) =
     Some (Inr (),
           \<lparr>files = Map.empty, cwd = ''/home/user'', atexit = [],
            log = [Kill 4243 15, Sleep_ms 100, Kill 4243 15, Sleep_ms 100, Kill 4243 15,
                   RemoveFile ''/tmp/soundctld.pid'']\<rparr>)
   \<and> stop tmp_daemon never_dies
        (\<lparr>files = Map.empty, cwd = ''/home/user'', atexit = [],
          log = [Kill 4243 15, Sleep_ms 100, Kill 4243 15, Sleep_ms 100, Kill 4243 15,
                 RemoveFile ''/tmp/soundctld.pid'']\<rparr> :: unit proc) =
     Some (Inr (),
           \<lparr>files = Map.empty, cwd = ''/home/user'', atexit = [],
            log = [Kill 4243 15, Sleep_ms 100, Kill 4243 15, Sleep_ms 100, Kill 4243 15,
                   RemoveFile ''/tmp/soundctld.pid'',
                   Write Stderr (not_running ''/tmp/soundctld.pid'')]\<rparr>)"
proof -
  note second = conjunct1 [OF stop_after_stop [OF first_stop, of never_dies]]
  show ?thesis
    using first_stop second by (simp add: emit_def tmp_daemon_def)
qed

subsection \<open>Claims on start\<close>

lemma daemonize_detached:
  "detached env \<Longrightarrow>
   daemonize d env s =
     (Inr (),
      s\<lparr>files := (files s)(resolve ''/'' (pidfile d) \<mapsto> str_int (getpid env) @ nl),
        cwd := ''/'',
        atexit := atexit s @ [pidfile d],
        log := log s @ [Fork, Chdir ''/'', Setsid, Umask 0, Fork] @ redirect
               @ [AtexitRegister (pidfile d),
                  WriteFile (resolve ''/'' (pidfile d)) (str_int (getpid env) @ nl)]\<rparr>)"
  by (auto simp: detached_def daemonize_def emit_def Let_def split: fork_result.splits)

lemma daemonize_not_detached:
  "\<not> detached env \<Longrightarrow>
   \<exists>n s'. daemonize d env s = (Inl (SystemExit n), s') \<and> files s' = files s"
  by (auto simp: detached_def daemonize_def emit_def Let_def split: fork_result.splits)

lemma start_no_pid:
  "read_pid d s = Inr None \<or> read_pid d s = Inr (Some 0) \<Longrightarrow>
   start d run args env s =
     (case daemonize d env s of
        (Inl e, s') \<Rightarrow> (Inl e, s')
      | (Inr u, s') \<Rightarrow> run args (emit [CallRun args] s'))"
  by (auto simp: start_def)

lemma start_detached:
  assumes "read_pid d s = Inr None \<or> read_pid d s = Inr (Some 0)" and "detached env"
  shows "start d run args env s =
        run args
          (s\<lparr>files := (files s)(resolve ''/'' (pidfile d) \<mapsto> str_int (getpid env) @ nl),
             cwd := ''/'',
             atexit := atexit s @ [pidfile d],
             log := log s @
               [Fork, Chdir ''/'', Setsid, Umask 0, Fork,
                Flush Stdout, Flush Stderr,
                OpenDevnull ''r'', OpenDevnull ''a+'', OpenDevnull ''a+'',
                Dup2Devnull Stdin, Dup2Devnull Stdout, Dup2Devnull Stderr,
                AtexitRegister (pidfile d),
                WriteFile (resolve ''/'' (pidfile d)) (str_int (getpid env) @ nl),
                CallRun args]\<rparr>)"
  unfolding start_no_pid [OF assms(1)]
  by (simp add: daemonize_detached [OF assms(2)] emit_def redirect_def)

lemma start_not_detached:
  assumes "read_pid d s = Inr None \<or> read_pid d s = Inr (Some 0)" and "\<not> detached env"
  shows "start d run args env s = daemonize d env s"
  unfolding start_no_pid [OF assms(1)]
  using daemonize_not_detached [OF assms(2), of d s] by auto

lemma read_pid_absent:
  "files s (resolve (cwd s) (pidfile d)) = None \<Longrightarrow> read_pid d s = Inr None"
  by (simp add: read_pid_def)

lemma detached_final_child: "detached final_child"
  by (simp add: detached_def final_child_def)

lemma str_int_4243: "str_int 4243 = ''4243''"
  by code_simp

lemma str_oserror_EAGAIN: "str_oserror EAGAIN = ''[Errno 11] Resource temporarily unavailable''"
  by code_simp

lemma str_oserror_ENOMEM: "str_oserror ENOMEM = ''[Errno 12] Cannot allocate memory''"
  by code_simp

lemma final_child_log:
  "log (snd (start tmp_daemon worker_returns () final_child no_pidfile)) =
     [Fork, Chdir ''/'', Setsid, Umask 0, Fork,
      Flush Stdout, Flush Stderr,
      OpenDevnull ''r'', OpenDevnull ''a+'', OpenDevnull ''a+'',
      Dup2Devnull Stdin, Dup2Devnull Stdout, Dup2Devnull Stderr,
      AtexitRegister ''/tmp/soundctld.pid'',
      WriteFile ''/tmp/soundctld.pid'' (''4243'' @ nl),
      CallRun ()]"
proof -
  have "read_pid tmp_daemon no_pidfile = Inr None"
    by (rule read_pid_absent) (simp add: no_pidfile_def)
  then have r: "read_pid tmp_daemon no_pidfile = Inr None
      \<or> read_pid tmp_daemon no_pidfile = Inr (Some 0)" ..
  show ?thesis
    unfolding start_detached [OF r detached_final_child]
    by (simp add: worker_returns_def no_pidfile_def tmp_daemon_def resolve_def final_child_def
        str_int_4243)
qed

text \<open>
  C5, as stated, fails in the order of the last steps: the final child registers the
  cleanup action first and writes the pidfile after it, so the registration is in the log
  before the write and not the other way round.
\<close>

theorem register_before_write_counterexample:
  "before (AtexitRegister ''/tmp/soundctld.pid'')
          (WriteFile ''/tmp/soundctld.pid'' (''4243'' @ nl))
          (log (snd (start tmp_daemon worker_returns () final_child no_pidfile)))
   \<and> \<not> before (WriteFile ''/tmp/soundctld.pid'' (''4243'' @ nl))
              (AtexitRegister ''/tmp/soundctld.pid'')
              (log (snd (start tmp_daemon worker_returns () final_child no_pidfile)))"
  unfolding final_child_log by simp

text \<open>
  C5, amended. When \<open>start\<close> finds no pidfile, each process runs this sequence and
  no other. A failing first fork: message on the error stream, exit status 1. The
  invoking process, to which the first fork returns the child: exit status 0. The
  first child changes directory to the root, creates a session and sets the umask to 0,
  then forks again: exit status 1 with a message if that fails, exit status 0 as the
  parent. The final child flushes standard output and error, redirects standard input,
  output and error to the null device, registers the cleanup action for the pidfile,
  then writes its process identifier and a newline to the pidfile (a relative path now
  resolved against the root), and only then calls the worker with the arguments.
\<close>

theorem start_detaches:
  assumes "files s (resolve (cwd s) (pidfile d)) = None"
  shows
    "(fork1 env = ForkFailed e1 \<longrightarrow>
        start d run args env s =
          (Inl (SystemExit 1),
           s\<lparr>log := log s @ [Fork, Write Stderr (''fork #1 failed: '' @ str_oserror e1 @ nl)]\<rparr>))
   \<and> (fork1 env = ForkReturned r1 \<and> r1 > 0 \<longrightarrow>
        start d run args env s = (Inl (SystemExit 0), s\<lparr>log := log s @ [Fork]\<rparr>))
   \<and> (fork1 env = ForkReturned r1 \<and> \<not> r1 > 0 \<and> fork2 env = ForkFailed e2 \<longrightarrow>
        start d run args env s =
          (Inl (SystemExit 1),
           s\<lparr>cwd := ''/'',
             log := log s @ [Fork, Chdir ''/'', Setsid, Umask 0, Fork,
                             Write Stderr (''fork #2 failed: '' @ str_oserror e2 @ nl)]\<rparr>))
   \<and> (fork1 env = ForkReturned r1 \<and> \<not> r1 > 0 \<and> fork2 env = ForkReturned r2 \<and> r2 > 0 \<longrightarrow>
        start d run args env s =
          (Inl (SystemExit 0),
           s\<lparr>cwd := ''/'', log := log s @ [Fork, Chdir ''/'', Setsid, Umask 0, Fork]\<rparr>))
   \<and> (fork1 env = ForkReturned r1 \<and> \<not> r1 > 0 \<and> fork2 env = ForkReturned r2 \<and> \<not> r2 > 0 \<longrightarrow>
        start d run args env s =
          run args
            (s\<lparr>files := (files s)(resolve ''/'' (pidfile d) \<mapsto> str_int (getpid env) @ nl),
               cwd := ''/'',
               atexit := atexit s @ [pidfile d],
               log := log s @
                 [Fork, Chdir ''/'', Setsid, Umask 0, Fork,
                  Flush Stdout, Flush Stderr,
                  OpenDevnull ''r'', OpenDevnull ''a+'', OpenDevnull ''a+'',
                  Dup2Devnull Stdin, Dup2Devnull Stdout, Dup2Devnull Stderr,
                  AtexitRegister (pidfile d),
                  WriteFile (resolve ''/'' (pidfile d)) (str_int (getpid env) @ nl),
                  CallRun args]\<rparr>))"
proof -
  have r: "read_pid d s = Inr None \<or> read_pid d s = Inr (Some 0)"
    using assms by (simp add: read_pid_def)
  note others = start_not_detached [OF r]
  have "fork1 env = ForkFailed e1 \<Longrightarrow>
        start d run args env s =
          (Inl (SystemExit 1),
           s\<lparr>log := log s @ [Fork, Write Stderr (''fork #1 failed: '' @ str_oserror e1 @ nl)]\<rparr>)"
    by (simp add: others detached_def daemonize_def emit_def)
  moreover have "fork1 env = ForkReturned r1 \<and> r1 > 0 \<Longrightarrow>
        start d run args env s = (Inl (SystemExit 0), s\<lparr>log := log s @ [Fork]\<rparr>)"
    by (simp add: others detached_def daemonize_def emit_def)
  moreover have "fork1 env = ForkReturned r1 \<and> \<not> r1 > 0 \<and> fork2 env = ForkFailed e2 \<Longrightarrow>
        start d run args env s =
          (Inl (SystemExit 1),
           s\<lparr>cwd := ''/'',
             log := log s @ [Fork, Chdir ''/'', Setsid, Umask 0, Fork,
                             Write Stderr (''fork #2 failed: '' @ str_oserror e2 @ nl)]\<rparr>)"
    by (simp add: others detached_def daemonize_def emit_def)
  moreover have "fork1 env = ForkReturned r1 \<and> \<not> r1 > 0 \<and> fork2 env = ForkReturned r2 \<and> r2 > 0 \<Longrightarrow>
        start d run args env s =
          (Inl (SystemExit 0),
           s\<lparr>cwd := ''/'', log := log s @ [Fork, Chdir ''/'', Setsid, Umask 0, Fork]\<rparr>)"
    by (simp add: others detached_def daemonize_def emit_def)
  moreover have "fork1 env = ForkReturned r1 \<and> \<not> r1 > 0 \<and> fork2 env = ForkReturned r2 \<and> \<not> r2 > 0
      \<Longrightarrow> detached env"
    by (simp add: detached_def)
  ultimately show ?thesis
    using start_detached [OF r, of env run args] by blast
qed

theorem start_detaches_witness:
  "files no_pidfile (resolve (cwd no_pidfile) (pidfile tmp_daemon)) = None
   \<and> start tmp_daemon worker_returns () fork1_fails no_pidfile =
       (Inl (SystemExit 1),
        no_pidfile\<lparr>log := [Fork, Write Stderr
           (''fork #1 failed: [Errno 11] Resource temporarily unavailable'' @ nl)]\<rparr>)
   \<and> start tmp_daemon worker_returns () invoker no_pidfile =
       (Inl (SystemExit 0), no_pidfile\<lparr>log := [Fork]\<rparr>)
   \<and> start tmp_daemon worker_returns () fork2_fails no_pidfile =
       (Inl (SystemExit 1),
        no_pidfile\<lparr>cwd := ''/'', log := [Fork, Chdir ''/'', Setsid, Umask 0, Fork,
           Write Stderr (''fork #2 failed: [Errno 12] Cannot allocate memory'' @ nl)]\<rparr>)
   \<and> start tmp_daemon worker_returns () first_child no_pidfile =
       (Inl (SystemExit 0),
        no_pidfile\<lparr>cwd := ''/'', log := [Fork, Chdir ''/'', Setsid, Umask 0, Fork]\<rparr>)
   \<and> start tmp_daemon worker_returns () final_child no_pidfile =
       (Inr (),
        \<lparr>files = [''/tmp/soundctld.pid'' \<mapsto> ''4243'' @ nl], cwd = ''/'',
         atexit = [''/tmp/soundctld.pid''],
         log = [Fork, Chdir ''/'', Setsid, Umask 0, Fork,
                Flush Stdout, Flush Stderr,
                OpenDevnull ''r'', OpenDevnull ''a+'', OpenDevnull ''a+'',
                Dup2Devnull Stdin, Dup2Devnull Stdout, Dup2Devnull Stderr,
                AtexitRegister ''/tmp/soundctld.pid'',
                WriteFile ''/tmp/soundctld.pid'' (''4243'' @ nl),
                CallRun ()]\<rparr>)"
proof -
  have h: "files no_pidfile (resolve (cwd no_pidfile) (pidfile tmp_daemon)) = None"
    by (simp add: no_pidfile_def)
  note t = start_detaches [OF h, where run = worker_returns and args = "()"]
  have a: "start tmp_daemon worker_returns () fork1_fails no_pidfile =
       (Inl (SystemExit 1),
        no_pidfile\<lparr>log := [Fork, Write Stderr
           (''fork #1 failed: [Errno 11] Resource temporarily unavailable'' @ nl)]\<rparr>)"
    using t [where env = fork1_fails and ?e1.0 = EAGAIN]
    by (simp add: fork1_fails_def no_pidfile_def str_oserror_EAGAIN del: str_oserror_def)
  have b: "start tmp_daemon worker_returns () invoker no_pidfile =
       (Inl (SystemExit 0), no_pidfile\<lparr>log := [Fork]\<rparr>)"
    using t [where env = invoker and ?r1.0 = 4242]
    by (simp add: invoker_def no_pidfile_def)
  have c: "start tmp_daemon worker_returns () fork2_fails no_pidfile =
       (Inl (SystemExit 1),
        no_pidfile\<lparr>cwd := ''/'', log := [Fork, Chdir ''/'', Setsid, Umask 0, Fork,
           Write Stderr (''fork #2 failed: [Errno 12] Cannot allocate memory'' @ nl)]\<rparr>)"
    using t [where env = fork2_fails and ?r1.0 = 0 and ?e2.0 = ENOMEM]
    by (simp add: fork2_fails_def no_pidfile_def str_oserror_ENOMEM)
  have d: "start tmp_daemon worker_returns () first_child no_pidfile =
       (Inl (SystemExit 0),
        no_pidfile\<lparr>cwd := ''/'', log := [Fork, Chdir ''/'', Setsid, Umask 0, Fork]\<rparr>)"
    using t [where env = first_child and ?r1.0 = 0 and ?r2.0 = 4243]
    by (simp add: first_child_def no_pidfile_def)
  have e: "start tmp_daemon worker_returns () final_child no_pidfile =
       (Inr (),
        \<lparr>files = [''/tmp/soundctld.pid'' \<mapsto> ''4243'' @ nl], cwd = ''/'',
         atexit = [''/tmp/soundctld.pid''],
         log = [Fork, Chdir ''/'', Setsid, Umask 0, Fork,
                Flush Stdout, Flush Stderr,
                OpenDevnull ''r'', OpenDevnull ''a+'', OpenDevnull ''a+'',
                Dup2Devnull Stdin, Dup2Devnull Stdout, Dup2Devnull Stderr,
                AtexitRegister ''/tmp/soundctld.pid'',
                WriteFile ''/tmp/soundctld.pid'' (''4243'' @ nl),
                CallRun ()]\<rparr>)"
    using t [where env = final_child and ?r1.0 = 0 and ?r2.0 = 0]
    by (simp add: final_child_def no_pidfile_def tmp_daemon_def resolve_def worker_returns_def
        str_int_4243)
  show ?thesis using h a b c d e by simp
qed

lemma str_int_ascii: "\<forall>c\<in>set (str_int i). (of_char c :: nat) < 128"
proof -
  have "(of_char c :: nat) < 128" if "c \<in> set (str_nat n)" for c n
    using str_nat_digits [of n] that by (auto simp: is_digit_def Let_def)
  then show ?thesis by (auto simp: str_int_def)
qed

text \<open>
  C8. \<open>daemonize\<close> returns only in the process that went through both forks as the
  child, never in the invoking process, and only that process touches the file system.
  The pidfile it leaves holds the decimal text of its own process identifier followed by
  one newline and nothing else: no newline inside, characters below 128 only (so the
  bytes are the same in UTF-8), digits only for a non-negative identifier, and reading
  the file as \<open>start\<close> and \<open>stop\<close> do gives the identifier back.
\<close>

theorem pidfile_written_by_final_child:
  assumes "daemonize d env s = (r, s')"
  shows "(r = Inr ()) = detached env
       \<and> (detached env \<longrightarrow>
            files s' (resolve ''/'' (pidfile d)) = Some (str_int (getpid env) @ nl)
          \<and> char_of (10::nat) \<notin> set (str_int (getpid env))
          \<and> (\<forall>c\<in>set (str_int (getpid env) @ nl). (of_char c :: nat) < 128)
          \<and> (0 \<le> getpid env \<longrightarrow> (\<forall>c\<in>set (str_int (getpid env)). is_digit c))
          \<and> py_int (strip (str_int (getpid env) @ nl)) = Some (getpid env))
       \<and> (\<not> detached env \<longrightarrow> files s' = files s)"
proof (cases "detached env")
  case True
  have s': "s' = s\<lparr>files := (files s)(resolve ''/'' (pidfile d) \<mapsto> str_int (getpid env) @ nl),
        cwd := ''/'',
        atexit := atexit s @ [pidfile d],
        log := log s @ [Fork, Chdir ''/'', Setsid, Umask 0, Fork] @ redirect
               @ [AtexitRegister (pidfile d),
                  WriteFile (resolve ''/'' (pidfile d)) (str_int (getpid env) @ nl)]\<rparr>"
    and r: "r = Inr ()"
    using assms daemonize_detached [OF True, of d s] by simp_all
  have f: "files s' (resolve ''/'' (pidfile d)) = Some (str_int (getpid env) @ nl)"
    by (simp add: s')
  have a: "\<forall>c\<in>set (str_int (getpid env) @ nl). (of_char c :: nat) < 128"
    using str_int_ascii [of "getpid env"] by (simp add: nl_def)
  have dg: "0 \<le> getpid env \<longrightarrow> (\<forall>c\<in>set (str_int (getpid env)). is_digit c)"
    using str_nat_digits by (simp add: str_int_def)
  show ?thesis
    using True r f a dg str_int_no_nl [of "getpid env"] read_back [of "getpid env"] by blast
next
  case False
  from daemonize_not_detached [OF False, of d s] assms
  have "r \<noteq> Inr ()" "files s' = files s" by auto
  with False show ?thesis by simp
qed

theorem pidfile_written_by_final_child_witness:
  "daemonize tmp_daemon final_child no_pidfile =
     (Inr (),
      \<lparr>files = [''/tmp/soundctld.pid'' \<mapsto> ''4243'' @ nl], cwd = ''/'',
       atexit = [''/tmp/soundctld.pid''],
       log = [Fork, Chdir ''/'', Setsid, Umask 0, Fork,
              Flush Stdout, Flush Stderr,
              OpenDevnull ''r'', OpenDevnull ''a+'', OpenDevnull ''a+'',
              Dup2Devnull Stdin, Dup2Devnull Stdout, Dup2Devnull Stderr,
              AtexitRegister ''/tmp/soundctld.pid'',
              WriteFile ''/tmp/soundctld.pid'' (''4243'' @ nl)]\<rparr>)
   \<and> detached final_child \<and> 0 \<le> getpid final_child
   \<and> py_int (strip (''4243'' @ nl)) = Some 4243
   \<and> \<not> detached invoker
   \<and> daemonize tmp_daemon invoker no_pidfile = (Inl (SystemExit 0), no_pidfile\<lparr>log := [Fork]\<rparr>)
   \<and> files (no_pidfile\<lparr>log := [Fork]\<rparr>) = files no_pidfile"
proof -
  have a: "daemonize tmp_daemon final_child no_pidfile =
     (Inr (),
      \<lparr>files = [''/tmp/soundctld.pid'' \<mapsto> ''4243'' @ nl], cwd = ''/'',
       atexit = [''/tmp/soundctld.pid''],
       log = [Fork, Chdir ''/'', Setsid, Umask 0, Fork,
              Flush Stdout, Flush Stderr,
              OpenDevnull ''r'', OpenDevnull ''a+'', OpenDevnull ''a+'',
              Dup2Devnull Stdin, Dup2Devnull Stdout, Dup2Devnull Stderr,
              AtexitRegister ''/tmp/soundctld.pid'',
              WriteFile ''/tmp/soundctld.pid'' (''4243'' @ nl)]\<rparr>)"
    using daemonize_detached [OF detached_final_child, of tmp_daemon no_pidfile]
    by (simp add: redirect_def no_pidfile_def tmp_daemon_def resolve_def final_child_def
        str_int_4243)
  have b: "daemonize tmp_daemon invoker no_pidfile = (Inl (SystemExit 0), no_pidfile\<lparr>log := [Fork]\<rparr>)"
    by (simp add: daemonize_def invoker_def emit_def no_pidfile_def)
  have c: "\<not> detached invoker" by (simp add: detached_def invoker_def)
  have g: "getpid final_child = 4243" by (simp add: final_child_def)
  show ?thesis
    using a b c detached_final_child g
      pidfile_written_by_final_child [OF a]
      pidfile_written_by_final_child [OF b]
    by (simp add: str_int_4243)
qed

subsection \<open>Claims on an existing pidfile that start does not honour\<close>

lemma py_int_0: "py_int (strip (''0'' @ nl)) = Some 0"
  by code_simp

lemma py_int_abc: "py_int (strip ''abc'') = None"
  by code_simp

lemma detached_invoker: "\<not> detached invoker"
  by (simp add: detached_def invoker_def)

lemma resolve_absolute: "p = CHR ''/'' # rest \<Longrightarrow> resolve dir p = p"
  by (simp add: resolve_def)

lemma daemonize_files:
  "\<not> detached env \<Longrightarrow>
   daemonize d env (s\<lparr>files := F\<rparr>) =
     (fst (daemonize d env s), (snd (daemonize d env s))\<lparr>files := F\<rparr>)"
  by (auto simp: detached_def daemonize_def emit_def Let_def split: fork_result.splits)

lemma read_pid_zero: "read_pid tmp_daemon (with_pidfile (''0'' @ nl)) = Inr (Some 0)"
  by (rule read_pid_tmp [OF py_int_0])

text \<open>
  C4, as stated, fails for a pidfile whose content parses to 0: the identifier is tested
  for truth, so \<open>start\<close> goes on to detach. The invoking process then exits with
  status 0, and the final child writes its own identifier over the old content.
\<close>

theorem start_over_zero_pidfile_counterexample:
  "files (with_pidfile (''0'' @ nl))
       (resolve (cwd (with_pidfile (''0'' @ nl))) (pidfile tmp_daemon)) = Some (''0'' @ nl)
   \<and> exit_status (fst (start tmp_daemon worker_returns () invoker (with_pidfile (''0'' @ nl)))) = 0
   \<and> files (snd (start tmp_daemon worker_returns () final_child (with_pidfile (''0'' @ nl))))
       ''/tmp/soundctld.pid'' = Some (''4243'' @ nl)"
proof -
  have r: "read_pid tmp_daemon (with_pidfile (''0'' @ nl)) = Inr None
      \<or> read_pid tmp_daemon (with_pidfile (''0'' @ nl)) = Inr (Some 0)"
    using read_pid_zero by simp
  have a: "files (with_pidfile (''0'' @ nl))
       (resolve (cwd (with_pidfile (''0'' @ nl))) (pidfile tmp_daemon)) = Some (''0'' @ nl)"
    by (simp add: with_pidfile_def tmp_daemon_def resolve_def)
  have b: "exit_status (fst (start tmp_daemon worker_returns () invoker
      (with_pidfile (''0'' @ nl)))) = 0"
    unfolding start_not_detached [OF r detached_invoker]
    by (simp add: daemonize_def invoker_def)
  have c: "files (snd (start tmp_daemon worker_returns () final_child (with_pidfile (''0'' @ nl))))
       ''/tmp/soundctld.pid'' = Some (''4243'' @ nl)"
    unfolding start_detached [OF r detached_final_child]
    by (simp add: worker_returns_def tmp_daemon_def resolve_def final_child_def str_int_4243)
  show ?thesis using a b c by simp
qed

text \<open>
  C4, amended. For every existing pidfile whose content does not parse to the integer 0
  (it parses to another integer, or it does not parse at all), \<open>start\<close> exits with
  status 1 and leaves the file system as it was; it has written nothing but, in the first
  case, the "already running" message.
\<close>

theorem start_keeps_pidfile:
  assumes "files s (resolve (cwd s) (pidfile d)) = Some text"
    and "py_int (strip text) \<noteq> Some 0"
  shows "exit_status (fst (start d run args env s)) = 1
       \<and> files (snd (start d run args env s)) = files s
       \<and> (log (snd (start d run args env s)) = log s
          \<or> log (snd (start d run args env s))
               = log s @ [Write Stderr (already_running (pidfile d))])"
proof (cases "py_int (strip text)")
  case None
  with assms(1) have "start d run args env s = (Inl ValueError, s)"
    by (simp add: start_def read_pid_def)
  then show ?thesis by simp
next
  case (Some n)
  with assms(2) have "n \<noteq> 0" by simp
  with assms(1) Some have "start d run args env s
      = (Inl (SystemExit 1), emit [Write Stderr (already_running (pidfile d))] s)"
    by (simp add: start_def read_pid_def)
  then show ?thesis by (simp add: emit_def)
qed

theorem start_keeps_pidfile_witness:
  "files (with_pidfile (''4243'' @ nl))
       (resolve (cwd (with_pidfile (''4243'' @ nl))) (pidfile tmp_daemon)) = Some (''4243'' @ nl)
   \<and> py_int (strip (''4243'' @ nl)) \<noteq> Some 0
   \<and> exit_status (fst (start tmp_daemon worker_returns () final_child
                          (with_pidfile (''4243'' @ nl)))) = 1
   \<and> files (snd (start tmp_daemon worker_returns () final_child (with_pidfile (''4243'' @ nl))))
       = files (with_pidfile (''4243'' @ nl))
   \<and> files (with_pidfile ''abc'')
       (resolve (cwd (with_pidfile ''abc'')) (pidfile tmp_daemon)) = Some ''abc''
   \<and> py_int (strip ''abc'') \<noteq> Some 0
   \<and> exit_status (fst (start tmp_daemon worker_returns () final_child (with_pidfile ''abc''))) = 1
   \<and> files (snd (start tmp_daemon worker_returns () final_child (with_pidfile ''abc'')))
       = files (with_pidfile ''abc'')"
proof -
  have f: "files (with_pidfile content) (resolve (cwd (with_pidfile content)) (pidfile tmp_daemon))
      = Some content" for content
    by (simp add: with_pidfile_def tmp_daemon_def resolve_def)
  have p1: "py_int (strip (''4243'' @ nl)) \<noteq> Some 0" using py_int_4243 by simp
  have p2: "py_int (strip ''abc'') \<noteq> Some 0" using py_int_abc by simp
  show ?thesis
    using f [of "''4243'' @ nl"] f [of "''abc''"] p1 p2
      start_keeps_pidfile [OF f p1, of worker_returns "()" final_child]
      start_keeps_pidfile [OF f p2, of worker_returns "()" final_child]
    by simp
qed

lemma py_int_rel_0: "read_pid rel_daemon (with_rel_pidfile (''0'' @ nl)) = Inr (Some 0)"
  using py_int_0 by (simp add: read_pid_def with_rel_pidfile_def rel_daemon_def resolve_def)

text \<open>
  C10, as stated, fails for a relative pidfile path: \<open>daemonize\<close> changes the
  working directory to the root before it opens the pidfile for writing, so the final
  child writes a file under the root and the pidfile that held 0 keeps its content.
\<close>

theorem relative_pidfile_counterexample:
  "read_pid rel_daemon (with_rel_pidfile (''0'' @ nl)) = Inr (Some 0)
   \<and> resolve (cwd (with_rel_pidfile (''0'' @ nl))) (pidfile rel_daemon) = ''/home/user/d.pid''
   \<and> files (snd (start rel_daemon worker_returns () final_child (with_rel_pidfile (''0'' @ nl))))
       ''/home/user/d.pid'' = Some (''0'' @ nl)
   \<and> files (snd (start rel_daemon worker_returns () final_child (with_rel_pidfile (''0'' @ nl))))
       ''/d.pid'' = Some (''4243'' @ nl)"
proof -
  have r: "read_pid rel_daemon (with_rel_pidfile (''0'' @ nl)) = Inr None
      \<or> read_pid rel_daemon (with_rel_pidfile (''0'' @ nl)) = Inr (Some 0)"
    using py_int_rel_0 by simp
  have p: "resolve (cwd (with_rel_pidfile (''0'' @ nl))) (pidfile rel_daemon) = ''/home/user/d.pid''"
    by (simp add: with_rel_pidfile_def rel_daemon_def resolve_def)
  have a: "files (snd (start rel_daemon worker_returns () final_child
      (with_rel_pidfile (''0'' @ nl)))) ''/home/user/d.pid'' = Some (''0'' @ nl)"
    unfolding start_detached [OF r detached_final_child]
    by (simp add: worker_returns_def with_rel_pidfile_def rel_daemon_def resolve_def)
  have b: "files (snd (start rel_daemon worker_returns () final_child
      (with_rel_pidfile (''0'' @ nl)))) ''/d.pid'' = Some (''4243'' @ nl)"
    unfolding start_detached [OF r detached_final_child]
    by (simp add: worker_returns_def rel_daemon_def resolve_def final_child_def str_int_4243)
  show ?thesis using py_int_rel_0 p a b by simp
qed

lemma resolve_same:
  "(\<exists>rest. p = CHR ''/'' # rest) \<or> dir = ''/'' \<Longrightarrow> resolve ''/'' p = resolve dir p"
  by (auto simp: resolve_def)

text \<open>
  C10, amended. For a pidfile at any path, absolute or relative, whose content parses
  to 0, \<open>start\<close> and \<open>stop\<close> behave as on the state without the file. \<open>stop\<close>
  writes the "not running" message, sends no signal and returns. \<open>start\<close> goes on to
  detach: in every process that does not get through both forks it is \<open>daemonize\<close>,
  with the same result and log as without the file and the file system untouched; in the
  final child it calls the worker after the same actions as without the file, having
  written the new identifier to the pidfile path resolved against the root. When the path
  is absolute, or the working directory was the root, that is the pidfile itself: it is
  overwritten and \<open>start\<close> is equal to \<open>start\<close> on the state without the file.
\<close>

theorem zero_pidfile_as_absent:
  assumes ex: "files s (resolve (cwd s) (pidfile d)) = Some text"
    and z: "py_int (strip text) = Some 0"
  shows "stop d senv s = Some (Inr (), emit [Write Stderr (not_running (pidfile d))] s)
       \<and> stop d senv (s\<lparr>files := (files s)(resolve (cwd s) (pidfile d) := None)\<rparr>)
           = Some (Inr (), emit [Write Stderr (not_running (pidfile d))]
                             (s\<lparr>files := (files s)(resolve (cwd s) (pidfile d) := None)\<rparr>))
       \<and> (detached env \<longrightarrow>
            start d run args env s =
              run args
                (s\<lparr>files := (files s)(resolve ''/'' (pidfile d) \<mapsto> str_int (getpid env) @ nl),
                   cwd := ''/'',
                   atexit := atexit s @ [pidfile d],
                   log := log s @
                     [Fork, Chdir ''/'', Setsid, Umask 0, Fork,
                      Flush Stdout, Flush Stderr,
                      OpenDevnull ''r'', OpenDevnull ''a+'', OpenDevnull ''a+'',
                      Dup2Devnull Stdin, Dup2Devnull Stdout, Dup2Devnull Stderr,
                      AtexitRegister (pidfile d),
                      WriteFile (resolve ''/'' (pidfile d)) (str_int (getpid env) @ nl),
                      CallRun args]\<rparr>)
          \<and> start d run args env (s\<lparr>files := (files s)(resolve (cwd s) (pidfile d) := None)\<rparr>) =
              run args
                (s\<lparr>files := ((files s)(resolve (cwd s) (pidfile d) := None))
                             (resolve ''/'' (pidfile d) \<mapsto> str_int (getpid env) @ nl),
                   cwd := ''/'',
                   atexit := atexit s @ [pidfile d],
                   log := log s @
                     [Fork, Chdir ''/'', Setsid, Umask 0, Fork,
                      Flush Stdout, Flush Stderr,
                      OpenDevnull ''r'', OpenDevnull ''a+'', OpenDevnull ''a+'',
                      Dup2Devnull Stdin, Dup2Devnull Stdout, Dup2Devnull Stderr,
                      AtexitRegister (pidfile d),
                      WriteFile (resolve ''/'' (pidfile d)) (str_int (getpid env) @ nl),
                      CallRun args]\<rparr>))
       \<and> (\<not> detached env \<longrightarrow>
            start d run args env s = daemonize d env s
          \<and> start d run args env (s\<lparr>files := (files s)(resolve (cwd s) (pidfile d) := None)\<rparr>)
              = (fst (daemonize d env s),
                 (snd (daemonize d env s))
                   \<lparr>files := (files s)(resolve (cwd s) (pidfile d) := None)\<rparr>))
       \<and> (((\<exists>rest. pidfile d = CHR ''/'' # rest) \<or> cwd s = ''/'') \<and> detached env \<longrightarrow>
            start d run args env s
              = start d run args env (s\<lparr>files := (files s)(resolve (cwd s) (pidfile d) := None)\<rparr>)
          \<and> resolve ''/'' (pidfile d) = resolve (cwd s) (pidfile d))"
proof -
  let ?f = "resolve (cwd s) (pidfile d)"
  let ?a = "s\<lparr>files := (files s)(?f := None)\<rparr>"
  have r: "read_pid d s = Inr None \<or> read_pid d s = Inr (Some 0)"
    using ex z by (simp add: read_pid_def)
  have ra: "read_pid d ?a = Inr None \<or> read_pid d ?a = Inr (Some 0)"
    by (simp add: read_pid_def)
  have st: "stop d senv s = Some (Inr (), emit [Write Stderr (not_running (pidfile d))] s)"
    using ex z by (simp add: stop_def read_pid_def)
  have sta: "stop d senv ?a = Some (Inr (), emit [Write Stderr (not_running (pidfile d))] ?a)"
    by (simp add: stop_def read_pid_def)
  have d1: "start d run args env s =
      run args
        (s\<lparr>files := (files s)(resolve ''/'' (pidfile d) \<mapsto> str_int (getpid env) @ nl),
           cwd := ''/'',
           atexit := atexit s @ [pidfile d],
           log := log s @
             [Fork, Chdir ''/'', Setsid, Umask 0, Fork,
              Flush Stdout, Flush Stderr,
              OpenDevnull ''r'', OpenDevnull ''a+'', OpenDevnull ''a+'',
              Dup2Devnull Stdin, Dup2Devnull Stdout, Dup2Devnull Stderr,
              AtexitRegister (pidfile d),
              WriteFile (resolve ''/'' (pidfile d)) (str_int (getpid env) @ nl),
              CallRun args]\<rparr>)" if "detached env"
    by (rule start_detached [OF r that])
  have d2: "start d run args env ?a =
      run args
        (s\<lparr>files := ((files s)(?f := None))
                     (resolve ''/'' (pidfile d) \<mapsto> str_int (getpid env) @ nl),
           cwd := ''/'',
           atexit := atexit s @ [pidfile d],
           log := log s @
             [Fork, Chdir ''/'', Setsid, Umask 0, Fork,
              Flush Stdout, Flush Stderr,
              OpenDevnull ''r'', OpenDevnull ''a+'', OpenDevnull ''a+'',
              Dup2Devnull Stdin, Dup2Devnull Stdout, Dup2Devnull Stderr,
              AtexitRegister (pidfile d),
              WriteFile (resolve ''/'' (pidfile d)) (str_int (getpid env) @ nl),
              CallRun args]\<rparr>)" if "detached env"
    using start_detached [OF ra that, of run args] by simp
  have n1: "start d run args env s = daemonize d env s" if "\<not> detached env"
    by (rule start_not_detached [OF r that])
  have n2: "start d run args env ?a
      = (fst (daemonize d env s), (snd (daemonize d env s))\<lparr>files := (files s)(?f := None)\<rparr>)"
    if "\<not> detached env"
    unfolding start_not_detached [OF ra that] by (rule daemonize_files [OF that])
  have o1: "resolve ''/'' (pidfile d) = ?f"
    if "(\<exists>rest. pidfile d = CHR ''/'' # rest) \<or> cwd s = ''/''"
    by (rule resolve_same [OF that])
  have o2: "start d run args env s = start d run args env ?a"
    if "(\<exists>rest. pidfile d = CHR ''/'' # rest) \<or> cwd s = ''/''" and "detached env"
    unfolding d1 [OF that(2)] d2 [OF that(2)] by (simp add: o1 [OF that(1)])
  show ?thesis using st sta d1 d2 n1 n2 o1 o2 by blast
qed

theorem zero_pidfile_as_absent_witness:
  "files (with_pidfile (''0'' @ nl))
       (resolve (cwd (with_pidfile (''0'' @ nl))) (pidfile tmp_daemon)) = Some (''0'' @ nl)
   \<and> py_int (strip (''0'' @ nl)) = Some 0
   \<and> detached final_child \<and> \<not> detached invoker
   \<and> pidfile tmp_daemon = CHR ''/'' # ''tmp/soundctld.pid''
   \<and> stop tmp_daemon never_dies (with_pidfile (''0'' @ nl)) =
       Some (Inr (), (with_pidfile (''0'' @ nl))
               \<lparr>log := [Write Stderr (not_running ''/tmp/soundctld.pid'')]\<rparr>)
   \<and> start tmp_daemon worker_returns () final_child (with_pidfile (''0'' @ nl)) =
       (Inr (),
        \<lparr>files = [''/tmp/soundctld.pid'' \<mapsto> ''4243'' @ nl], cwd = ''/'',
         atexit = [''/tmp/soundctld.pid''],
         log = [Fork, Chdir ''/'', Setsid, Umask 0, Fork,
                Flush Stdout, Flush Stderr,
                OpenDevnull ''r'', OpenDevnull ''a+'', OpenDevnull ''a+'',
                Dup2Devnull Stdin, Dup2Devnull Stdout, Dup2Devnull Stderr,
                AtexitRegister ''/tmp/soundctld.pid'',
                WriteFile ''/tmp/soundctld.pid'' (''4243'' @ nl),
                CallRun ()]\<rparr>)
   \<and> start tmp_daemon worker_returns () final_child (with_pidfile (''0'' @ nl)) =
       start tmp_daemon worker_returns () final_child no_pidfile
   \<and> start tmp_daemon worker_returns () invoker (with_pidfile (''0'' @ nl)) =
       (Inl (SystemExit 0), (with_pidfile (''0'' @ nl))\<lparr>log := [Fork]\<rparr>)
   \<and> files (with_rel_pidfile (''0'' @ nl))
       (resolve (cwd (with_rel_pidfile (''0'' @ nl))) (pidfile rel_daemon)) = Some (''0'' @ nl)
   \<and> stop rel_daemon never_dies (with_rel_pidfile (''0'' @ nl)) =
       Some (Inr (), (with_rel_pidfile (''0'' @ nl))
               \<lparr>log := [Write Stderr (not_running ''d.pid'')]\<rparr>)
   \<and> start rel_daemon worker_returns () final_child (with_rel_pidfile (''0'' @ nl)) =
       (Inr (),
        \<lparr>files = [''/home/user/d.pid'' \<mapsto> ''0'' @ nl, ''/d.pid'' \<mapsto> ''4243'' @ nl],
         cwd = ''/'', atexit = [''d.pid''],
         log = [Fork, Chdir ''/'', Setsid, Umask 0, Fork,
                Flush Stdout, Flush Stderr,
                OpenDevnull ''r'', OpenDevnull ''a+'', OpenDevnull ''a+'',
                Dup2Devnull Stdin, Dup2Devnull Stdout, Dup2Devnull Stderr,
                AtexitRegister ''d.pid'',
                WriteFile ''/d.pid'' (''4243'' @ nl),
                CallRun ()]\<rparr>)
   \<and> start rel_daemon worker_returns () invoker (with_rel_pidfile (''0'' @ nl)) =
       (Inl (SystemExit 0), (with_rel_pidfile (''0'' @ nl))\<lparr>log := [Fork]\<rparr>)"
proof -
  have ex: "files (with_pidfile (''0'' @ nl))
       (resolve (cwd (with_pidfile (''0'' @ nl))) (pidfile tmp_daemon)) = Some (''0'' @ nl)"
    by (simp add: with_pidfile_def tmp_daemon_def resolve_def)
  have exr: "files (with_rel_pidfile (''0'' @ nl))
       (resolve (cwd (with_rel_pidfile (''0'' @ nl))) (pidfile rel_daemon)) = Some (''0'' @ nl)"
    by (simp add: with_rel_pidfile_def rel_daemon_def resolve_def)
  have ab: "pidfile tmp_daemon = CHR ''/'' # ''tmp/soundctld.pid''"
    by (simp add: tmp_daemon_def)
  have ab': "(\<exists>rest. pidfile tmp_daemon = CHR ''/'' # rest) \<or> cwd (with_pidfile (''0'' @ nl)) = ''/''"
    using ab by blast
  have gone: "(with_pidfile (''0'' @ nl))\<lparr>files := (files (with_pidfile (''0'' @ nl)))
      (resolve (cwd (with_pidfile (''0'' @ nl))) (pidfile tmp_daemon) := None)\<rparr> = no_pidfile"
    by (simp add: with_pidfile_def no_pidfile_def tmp_daemon_def resolve_def)
  note t = zero_pidfile_as_absent [OF ex py_int_0, where run = worker_returns and args = "()"
      and senv = never_dies]
  note u = zero_pidfile_as_absent [OF exr py_int_0, where run = worker_returns and args = "()"
      and senv = never_dies]
  have a: "stop tmp_daemon never_dies (with_pidfile (''0'' @ nl)) =
       Some (Inr (), (with_pidfile (''0'' @ nl))
               \<lparr>log := [Write Stderr (not_running ''/tmp/soundctld.pid'')]\<rparr>)"
    using conjunct1 [OF t [where env = final_child]]
    by (simp add: emit_def with_pidfile_def tmp_daemon_def)
  have b: "start tmp_daemon worker_returns () final_child (with_pidfile (''0'' @ nl)) =
       (Inr (),
        \<lparr>files = [''/tmp/soundctld.pid'' \<mapsto> ''4243'' @ nl], cwd = ''/'',
         atexit = [''/tmp/soundctld.pid''],
         log = [Fork, Chdir ''/'', Setsid, Umask 0, Fork,
                Flush Stdout, Flush Stderr,
                OpenDevnull ''r'', OpenDevnull ''a+'', OpenDevnull ''a+'',
                Dup2Devnull Stdin, Dup2Devnull Stdout, Dup2Devnull Stderr,
                AtexitRegister ''/tmp/soundctld.pid'',
                WriteFile ''/tmp/soundctld.pid'' (''4243'' @ nl),
                CallRun ()]\<rparr>)"
    using conjunct1 [OF mp [OF conjunct1 [OF conjunct2 [OF conjunct2
      [OF t [where env = final_child]]]] detached_final_child]]
    by (simp add: worker_returns_def with_pidfile_def tmp_daemon_def resolve_def final_child_def
        str_int_4243)
  have c: "start tmp_daemon worker_returns () final_child (with_pidfile (''0'' @ nl)) =
       start tmp_daemon worker_returns () final_child no_pidfile"
    using conjunct1 [OF mp [OF conjunct2 [OF conjunct2 [OF conjunct2 [OF conjunct2
      [OF t [where env = final_child]]]]] conjI [OF ab' detached_final_child]]]
    by (simp only: gone)
  have d: "start tmp_daemon worker_returns () invoker (with_pidfile (''0'' @ nl)) =
       (Inl (SystemExit 0), (with_pidfile (''0'' @ nl))\<lparr>log := [Fork]\<rparr>)"
    using conjunct1 [OF mp [OF conjunct1 [OF conjunct2 [OF conjunct2 [OF conjunct2
      [OF t [where env = invoker]]]]] detached_invoker]]
    by (simp add: daemonize_def invoker_def emit_def with_pidfile_def)
  have e: "stop rel_daemon never_dies (with_rel_pidfile (''0'' @ nl)) =
       Some (Inr (), (with_rel_pidfile (''0'' @ nl))
               \<lparr>log := [Write Stderr (not_running ''d.pid'')]\<rparr>)"
    using conjunct1 [OF u [where env = final_child]]
    by (simp add: emit_def with_rel_pidfile_def rel_daemon_def)
  have f: "start rel_daemon worker_returns () final_child (with_rel_pidfile (''0'' @ nl)) =
       (Inr (),
        \<lparr>files = [''/home/user/d.pid'' \<mapsto> ''0'' @ nl, ''/d.pid'' \<mapsto> ''4243'' @ nl],
         cwd = ''/'', atexit = [''d.pid''],
         log = [Fork, Chdir ''/'', Setsid, Umask 0, Fork,
                Flush Stdout, Flush Stderr,
                OpenDevnull ''r'', OpenDevnull ''a+'', OpenDevnull ''a+'',
                Dup2Devnull Stdin, Dup2Devnull Stdout, Dup2Devnull Stderr,
                AtexitRegister ''d.pid'',
                WriteFile ''/d.pid'' (''4243'' @ nl),
                CallRun ()]\<rparr>)"
    using conjunct1 [OF mp [OF conjunct1 [OF conjunct2 [OF conjunct2
      [OF u [where env = final_child]]]] detached_final_child]]
    by (simp add: worker_returns_def with_rel_pidfile_def rel_daemon_def resolve_def
        final_child_def str_int_4243)
  have g: "start rel_daemon worker_returns () invoker (with_rel_pidfile (''0'' @ nl)) =
       (Inl (SystemExit 0), (with_rel_pidfile (''0'' @ nl))\<lparr>log := [Fork]\<rparr>)"
    using conjunct1 [OF mp [OF conjunct1 [OF conjunct2 [OF conjunct2 [OF conjunct2
      [OF u [where env = invoker]]]]] detached_invoker]]
    by (simp add: daemonize_def invoker_def emit_def with_rel_pidfile_def)
  show ?thesis
    using ex py_int_0 detached_final_child detached_invoker ab a b c d exr e f g
    by (simp only: simp_thms)
qed

end
